theory Spec2Isabelle
  imports Main "HOL-Library.Sublist"
begin

section \<open>Data model\<close>

text \<open>
  The types of \<^verbatim>\<open>types\<close> (\<^verbatim>\<open>toolType\<close>, \<^verbatim>\<open>ToolSchema\<close>, \<^verbatim>\<open>Tools\<close>) and the
  fields of the \<^verbatim>\<open>Agent\<close> class that the registry, \<^verbatim>\<open>initialize\<close> and the orchestrator touch.
  A tool is an object: \<open>tool_ident\<close> stands for its identity, so that two tools with the
  same name are still two objects.
\<close>

record tool =
  tool_name :: string
  tool_description :: string
  tool_ident :: nat

record toolSchema =
  ts_name :: string
  ts_description :: string
  ts_requiresApproval :: "bool option"

text \<open>
  What a factory resolves to: \<^verbatim>\<open>{ tools: toolType[]; schema: Tools }\<close>. The schema object
  is kept as the list of its entries in the order \<^verbatim>\<open>Object.values\<close> enumerates them.
\<close>

record toolItem =
  ti_tools :: "tool list"
  ti_schema :: "(string \<times> toolSchema) list"

datatype error = TypeError string | SyntaxError string | Error string

text \<open>
  \<^verbatim>\<open>Agent.tools\<close> is declared \<^verbatim>\<open>any[]\<close> and initialised to \<^verbatim>\<open>[]\<close> in one variant of the
  class, and declared \<^verbatim>\<open>{ [key: string]: toolType }\<close> and initialised to \<^verbatim>\<open>{}\<close> in the two
  others. The registry receives whichever object the agent holds, so both shapes are values
  of the field.
\<close>

datatype toolStore = ToolArray "tool list" | ToolObject "(string \<times> tool) list"

datatype saver = MemorySaver | MongoDBSaver

record agent =
  threadId :: string
  params :: nat
  tools :: toolStore
  toolMetadata :: string
  systemPrompt :: "string option"
  mongoClient :: "string option"
  checkPointSaver :: "saver option"

text \<open>
  A factory \<^verbatim>\<open>(agent: Agent) => Promise<{tools, schema}>\<close>: given the agent it either
  resolves to a tool item or throws (rejects), \<open>Inl\<close> being the error.
\<close>

type_synonym factory = "agent \<Rightarrow> error + toolItem"

section \<open>Registry resolver: \<^verbatim>\<open>exportToolsAndSetMetadata\<close>\<close>

subsection \<open>The effective factory list\<close>

text \<open>
  \<^verbatim>\<open>arr.filter((_, idx) => p(idx))\<close>: the callback receives the element and its position,
  counted from the start of the array.
\<close>

fun filter_idx :: "('a \<Rightarrow> nat \<Rightarrow> bool) \<Rightarrow> 'a list \<Rightarrow> nat \<Rightarrow> 'a list" where
  "filter_idx p [] idx = []"
| "filter_idx p (x # xs) idx =
     (if p x idx then x # filter_idx p xs (Suc idx) else filter_idx p xs (Suc idx))"

text \<open>\<^verbatim>\<open>toolNumbers.includes(idx)\<close>, the numbers of \<^verbatim>\<open>toolNumbers\<close> taken as integers.\<close>

definition includesNum :: "int list \<Rightarrow> nat \<Rightarrow> bool" where
  "includesNum toolNumbers idx = (int idx \<in> set toolNumbers)"

definition filteredToolBunches :: "'f list \<Rightarrow> int list \<Rightarrow> 'f list" where
  "filteredToolBunches allRegistry toolNumbers =
     filter_idx (\<lambda>_ idx. includesNum toolNumbers idx) allRegistry 0"

text \<open>\<^verbatim>\<open>coreRegistry.concat(filteredToolBunches)\<close>: the list the callbacks are mapped over.\<close>

definition effectiveFactories :: "'f list \<Rightarrow> 'f list \<Rightarrow> int list \<Rightarrow> 'f list" where
  "effectiveFactories coreRegistry allRegistry toolNumbers =
     coreRegistry @ filteredToolBunches allRegistry toolNumbers"

subsection \<open>The per-factory callback\<close>

text \<open>
  \<^verbatim>\<open>agent.tools.push(...toolItem.tools)\<close>. On an array the tools are appended. An object
  of type \<^verbatim>\<open>{ [key: string]: toolType }\<close> has no callable \<^verbatim>\<open>push\<close> member (a member of
  that name would be a tool, not a function), so the call raises a \<^verbatim>\<open>TypeError\<close>.
\<close>

fun push :: "toolStore \<Rightarrow> tool list \<Rightarrow> error + toolStore" where
  "push (ToolArray ts) new = Inr (ToolArray (ts @ new))"
| "push (ToolObject kvs) new = Inl (TypeError ''agent.tools.push is not a function'')"

definition objectValues :: "(string \<times> 'v) list \<Rightarrow> 'v list" where
  "objectValues obj = map snd obj"

definition showBool :: "bool \<Rightarrow> string" where
  "showBool b = (if b then ''true'' else ''false'')"

text \<open>
  The template literal pushed onto \<^verbatim>\<open>toolMetadata\<close> for one schema entry;
  \<^verbatim>\<open>item?.requiresApproval || false\<close> is \<^verbatim>\<open>true\<close> only for a \<^verbatim>\<open>requiresApproval\<close> that is
  present and true.
\<close>

definition metadataEntry :: "toolSchema \<Rightarrow> string" where
  "metadataEntry item =
     [CHR 0x0A] @ ''  - Tool Name: '' @ ts_name item @
     [CHR 0x0A] @ ''  - Tool Description: '' @ ts_description item @
     [CHR 0x0A] @ ''  - Requires Approval: '' @
       showBool (case ts_requiresApproval item of Some b \<Rightarrow> b | None \<Rightarrow> False) @
     [CHR 0x0A] @ ''            ''"

text \<open>\<^verbatim>\<open>arr.join(sep)\<close>\<close>

fun joinWith :: "string \<Rightarrow> string list \<Rightarrow> string" where
  "joinWith sep [] = []"
| "joinWith sep [x] = x"
| "joinWith sep (x # y # ys) = x @ sep @ joinWith sep (y # ys)"

text \<open>
  The body of the \<^verbatim>\<open>async (item) => { try { ... } catch { return null } }\<close> callback from
  the point where \<^verbatim>\<open>await item(agent)\<close> settles, with \<open>out\<close> what the factory settled to
  and \<open>md\<close> the \<^verbatim>\<open>toolMetadata\<close> array of the enclosing call. Whatever is raised inside the
  \<^verbatim>\<open>try\<close> (by the factory or by \<^verbatim>\<open>push\<close>) is caught and the callback returns \<^verbatim>\<open>null\<close>
  (\<open>None\<close>); otherwise it returns the tool item. \<^verbatim>\<open>push\<close> comes before the metadata loop,
  and nothing in the loop raises on a schema whose values are \<^verbatim>\<open>ToolSchema\<close> objects.
\<close>

definition toolCallback :: "agent \<Rightarrow> string list \<Rightarrow> error + toolItem
    \<Rightarrow> agent \<times> string list \<times> toolItem option" where
  "toolCallback ag md out =
     (case out of
        Inl err \<Rightarrow> (ag, md, None)
      | Inr item \<Rightarrow>
          (case push (tools ag) (ti_tools item) of
             Inl err \<Rightarrow> (ag, md, None)
           | Inr ts \<Rightarrow>
               (ag\<lparr>tools := ts\<rparr>,
                md @ map metadataEntry (objectValues (ti_schema item)),
                Some item)))"

subsection \<open>Settling the promises\<close>

text \<open>
  An entry of the array \<^verbatim>\<open>Promise.allSettled\<close> resolves to. The callback catches
  everything, so its promise is always fulfilled, with the tool item or with \<^verbatim>\<open>null\<close>.
\<close>

datatype settled = Fulfilled "toolItem option" | Rejected error

text \<open>
  \<^verbatim>\<open>.map(async (item) => ...)\<close> calls every factory in list order, each on the agent as
  it is when the call starts; the rest of each callback runs when its factory settles.
  The order in which they settle is not fixed by the code, so it is a parameter: \<open>sched\<close>
  lists the positions of the effective list in settlement order. \<open>rs\<close> holds the outcome
  of each promise, \<open>None\<close> while it is pending. A position that names no promise settles
  nothing.
\<close>

fun settleAll :: "(error + toolItem) list \<Rightarrow> nat list \<Rightarrow> agent \<Rightarrow> string list
    \<Rightarrow> settled option list \<Rightarrow> agent \<times> string list \<times> settled option list" where
  "settleAll outs [] ag md rs = (ag, md, rs)"
| "settleAll outs (i # sched) ag md rs =
     (if i < length outs then
        (case toolCallback ag md (outs ! i) of
           (ag', md', r) \<Rightarrow> settleAll outs sched ag' md' (rs[i := Some (Fulfilled r)]))
      else settleAll outs sched ag md rs)"

text \<open>\<^verbatim>\<open>Promise.allSettled\<close> resolves once no promise is pending, and never before.\<close>

fun allSettled :: "settled option list \<Rightarrow> settled list option" where
  "allSettled [] = Some []"
| "allSettled (None # rs) = None"
| "allSettled (Some r # rs) = (case allSettled rs of None \<Rightarrow> None | Some xs \<Rightarrow> Some (r # xs))"

text \<open>
  The whole call. It returns the agent as the call leaves it together with \<^verbatim>\<open>results\<close>;
  \<open>None\<close> stands for a call that never returns because some factory never settles.
  Between \<^verbatim>\<open>allSettled\<close> and \<^verbatim>\<open>return results\<close> the code only logs (no promise is
  rejected, so the failure report is empty) and assigns \<^verbatim>\<open>agent.toolMetadata\<close>. With
  arrays for both registries nothing outside the callbacks raises, so the outer
  \<^verbatim>\<open>catch\<close>, which would return \<^verbatim>\<open>[]\<close>, is not entered.
\<close>

definition exportToolsAndSetMetadata :: "agent \<Rightarrow> int list \<Rightarrow> factory list \<Rightarrow> factory list
    \<Rightarrow> nat list \<Rightarrow> (agent \<times> settled list) option" where
  "exportToolsAndSetMetadata ag toolNumbers coreRegistry allRegistry sched =
     (let fs = effectiveFactories coreRegistry allRegistry toolNumbers;
          outs = map (\<lambda>item. item ag) fs
      in case settleAll outs sched ag [] (replicate (length fs) None) of
           (ag', md, rs) \<Rightarrow>
             (case allSettled rs of
                None \<Rightarrow> None
              | Some results \<Rightarrow>
                  Some (ag'\<lparr>toolMetadata := joinWith [CHR 0x0A, CHR 0x0A] md\<rparr>, results)))"

text \<open>A schedule in which each of the \<open>n\<close> promises settles, once.\<close>

definition completeSchedule :: "nat \<Rightarrow> nat list \<Rightarrow> bool" where
  "completeSchedule n sched = (distinct sched \<and> set sched = set [0..<n])"

text \<open>The tools held by the agent's collection: array elements, or the object's values.\<close>

fun toolValues :: "toolStore \<Rightarrow> tool list" where
  "toolValues (ToolArray ts) = ts"
| "toolValues (ToolObject kvs) = map snd kvs"

fun isArray :: "toolStore \<Rightarrow> bool" where
  "isArray (ToolArray ts) = True"
| "isArray (ToolObject kvs) = False"

text \<open>
  What the callback of a factory that settled to \<open>out\<close> returns on agent \<open>ag\<close>: the tool
  item when the factory resolved and the collection accepts \<^verbatim>\<open>push\<close>, \<^verbatim>\<open>null\<close> otherwise.
\<close>

definition loaded :: "agent \<Rightarrow> error + toolItem \<Rightarrow> toolItem option" where
  "loaded ag out = (case toolCallback ag [] out of (ag', md', r) \<Rightarrow> r)"

text \<open>The contribution of one settled factory to the tool collection and to the metadata.\<close>

definition loadedTools :: "agent \<Rightarrow> error + toolItem \<Rightarrow> tool list" where
  "loadedTools ag out = (case loaded ag out of None \<Rightarrow> [] | Some item \<Rightarrow> ti_tools item)"

definition loadedMeta :: "agent \<Rightarrow> error + toolItem \<Rightarrow> string list" where
  "loadedMeta ag out =
     (case loaded ag out of
        None \<Rightarrow> []
      | Some item \<Rightarrow> map metadataEntry (objectValues (ti_schema item)))"

section \<open>The \<^verbatim>\<open>Agent\<close> class with a name-keyed tool object\<close>

subsection \<open>Constructor\<close>

text \<open>
  \<^verbatim>\<open>params\<close> is an object the caller owns and the agent keeps a reference to, so objects
  live in a store and the agent's \<open>params\<close> field is an address. An address the store does
  not map stands for a \<^verbatim>\<open>params\<close> that is \<^verbatim>\<open>undefined\<close>. \<^verbatim>\<open>params\<close> is typed \<^verbatim>\<open>any\<close>, so the
  caller may pass an object that does not take an assignment to \<^verbatim>\<open>toolKnowledge\<close>: a frozen
  object, one whose \<^verbatim>\<open>toolKnowledge\<close> is read-only, or a sealed or non-extensible one that
  has no such property. \<open>p_assignable\<close> tells whether the object takes the assignment.
\<close>

record paramsObj =
  p_name :: string
  p_instruction :: string
  p_toolKnowledge :: "string list option"
  p_assignable :: bool

type_synonym store = "nat \<rightharpoonup> paramsObj"

text \<open>
  \<^verbatim>\<open>new Agent({ threadId, params, model })\<close>; \<open>model = None\<close> is a falsy \<^verbatim>\<open>model\<close>. The
  assignment \<^verbatim>\<open>this.params.toolKnowledge = []\<close> goes through the reference, before the
  model is checked and outside the \<^verbatim>\<open>try\<close>. A class body is strict code, so on an object
  that does not take the assignment it raises a \<^verbatim>\<open>TypeError\<close> and the constructor ends
  there, the object unchanged (the message is the one for a read-only property; for a
  property that cannot be added it reads otherwise). The result is the store after the
  call and the new agent, or the error the constructor throws.
\<close>

definition newAgent :: "store \<Rightarrow> string \<Rightarrow> nat \<Rightarrow> string option \<Rightarrow> store \<times> (error + agent)" where
  "newAgent h tid p model =
     (case h p of
        None \<Rightarrow>
          (h, Inl (TypeError (''Cannot set properties of undefined (setting '' @ [CHR 0x27] @
                              ''toolKnowledge'' @ [CHR 0x27] @ '')'')))
      | Some obj \<Rightarrow>
          if \<not> p_assignable obj
          then (h, Inl (TypeError (''Cannot assign to read only property '' @ [CHR 0x27] @
                                   ''toolKnowledge'' @ [CHR 0x27] @ '' of object'')))
          else
            (let h' = h(p \<mapsto> obj\<lparr>p_toolKnowledge := Some []\<rparr>)
             in case model of
                  None \<Rightarrow>
                    (h', Inl (Error ''Failed to initialize model: No valid API key found for AI models''))
                | Some m \<Rightarrow>
                    (h', Inr \<lparr>threadId = tid, params = p, tools = ToolObject [],
                             toolMetadata = [], systemPrompt = None, mongoClient = None,
                             checkPointSaver = None\<rparr>)))"

subsection \<open>\<^verbatim>\<open>initialize\<close>\<close>

text \<open>
  The \<^verbatim>\<open>ADDITIONAL KNOWLEDGE\<close> hole of the prompt:
  \<^verbatim>\<open>${tk && tk.length > 0 && tk.filter(i => i !== "").map(i => `- ${i}`).join("\n")}\<close>.
  An absent \<^verbatim>\<open>toolKnowledge\<close> prints as \<^verbatim>\<open>undefined\<close>, an empty one as \<^verbatim>\<open>false\<close>.
\<close>

definition knowledgeText :: "string list option \<Rightarrow> string" where
  "knowledgeText tk =
     (case tk of
        None \<Rightarrow> ''undefined''
      | Some items \<Rightarrow>
          if length items > 0
          then joinWith [CHR 0x0A] (map (\<lambda>item. ''- '' @ item) (filter (\<lambda>item. item \<noteq> []) items))
          else ''false'')"

text \<open>
  The system prompt is a fixed template with five holes. It is kept as the texts
  interpolated into the holes, one per line, in order: name, instruction, current time,
  tool metadata, tool knowledge.
\<close>

definition systemPromptHoles :: "paramsObj \<Rightarrow> string \<Rightarrow> string \<Rightarrow> string" where
  "systemPromptHoles obj time metadata =
     joinWith [CHR 0x0A]
       [p_name obj, p_instruction obj, time, metadata, knowledgeText (p_toolKnowledge obj)]"

datatype checkPointer = Local | Mongo

text \<open>
  What \<^verbatim>\<open>initialize\<close> receives, and what it meets outside the program: the order in which
  the factories settle, whether the \<^verbatim>\<open>MongoClient\<close> can be built and connected
  (\<open>connectError\<close> is the message of the error raised when it cannot), and the clock.
\<close>

record initArgs =
  toolNumbers :: "int list"
  clients :: "factory list"
  allRegistry :: "factory list"
  checkPointerArg :: checkPointer

record initEnv =
  settleOrder :: "nat list"
  connectError :: "string option"
  mongoUri :: string
  clock :: string

text \<open>
  The statements inside the outer \<^verbatim>\<open>try\<close>, from the point where
  \<^verbatim>\<open>exportToolsAndSetMetadata\<close> has returned agent \<open>ag\<close>. The call returns the agent as the
  block leaves it and \<open>Inl\<close> the error it throws, if any. Assignments made before a
  \<^verbatim>\<open>throw\<close> stay.
\<close>

definition initializeTry :: "store \<Rightarrow> agent \<Rightarrow> initArgs \<Rightarrow> initEnv \<Rightarrow> (error + unit) \<times> agent" where
  "initializeTry h ag args env =
     (case h (params ag) of
        None \<Rightarrow> (Inl (TypeError ''Cannot read properties of undefined''), ag)
      | Some obj \<Rightarrow>
          (let ag1 = ag\<lparr>systemPrompt := Some (systemPromptHoles obj (clock env) (toolMetadata ag))\<rparr>
           in case checkPointerArg args of
                Mongo \<Rightarrow>
                  (let ag2 = ag1\<lparr>mongoClient := Some (mongoUri env)\<rparr>
                   in case connectError env of
                        Some msg \<Rightarrow> (Inl (Error (''MongoDB connection failed: '' @ msg)), ag2)
                      | None \<Rightarrow> (Inr (), ag2\<lparr>checkPointSaver := Some MongoDBSaver\<rparr>))
              | Local \<Rightarrow> (Inr (), ag1\<lparr>checkPointSaver := Some MemorySaver\<rparr>)))"

text \<open>
  \<^verbatim>\<open>initialize\<close>. \<^verbatim>\<open>exportToolsAndSetMetadata\<close> does not throw, so the inner \<^verbatim>\<open>catch\<close>
  around it is not entered. The outer \<^verbatim>\<open>catch\<close> logs whatever the block threw and the
  method ends. The result is what the caller's \<^verbatim>\<open>await\<close> sees (\<open>Inl\<close> a rejection,
  \<open>Inr\<close> a normal return), the agent and the log; \<open>None\<close> when the call never returns.
\<close>

definition initialize :: "store \<Rightarrow> agent \<Rightarrow> initArgs \<Rightarrow> initEnv
    \<Rightarrow> ((error + unit) \<times> agent \<times> string list) option" where
  "initialize h ag args env =
     (case exportToolsAndSetMetadata ag (toolNumbers args) (clients args) (allRegistry args)
             (settleOrder env) of
        None \<Rightarrow> None
      | Some (ag1, results) \<Rightarrow>
          (case initializeTry h ag1 args env of
             (Inl err, ag2) \<Rightarrow> Some (Inr (), ag2, [''Agent initialization error:''])
           | (Inr u, ag2) \<Rightarrow> Some (Inr (), ag2, [''Agent initialized successfully''])))"

subsection \<open>\<^verbatim>\<open>orchestrate\<close> and \<^verbatim>\<open>messageAgent\<close>\<close>

text \<open>
  The value of \<^verbatim>\<open>this.tools[name]\<close>: a tool, \<^verbatim>\<open>undefined\<close>, or something that is not
  a tool (a member inherited from the prototype, the \<^verbatim>\<open>length\<close> of an array).
\<close>

datatype jsValue = Undefined | ToolRef tool | Inherited string | Num nat

text \<open>The property names every object inherits from \<^verbatim>\<open>Object.prototype\<close>.\<close>

definition objectPrototype :: "string list" where
  "objectPrototype =
     [''constructor'', ''__defineGetter__'', ''__defineSetter__'', ''hasOwnProperty'',
      ''__lookupGetter__'', ''__lookupSetter__'', ''isPrototypeOf'', ''propertyIsEnumerable'',
      ''toString'', ''valueOf'', ''__proto__'', ''toLocaleString'']"

text \<open>The property names an array inherits from \<^verbatim>\<open>Array.prototype\<close> in addition.\<close>

definition arrayPrototype :: "string list" where
  "arrayPrototype =
     [''at'', ''concat'', ''copyWithin'', ''fill'', ''find'', ''findIndex'', ''findLast'',
      ''findLastIndex'', ''lastIndexOf'', ''pop'', ''push'', ''reverse'', ''shift'',
      ''unshift'', ''slice'', ''sort'', ''splice'', ''includes'', ''indexOf'', ''join'',
      ''keys'', ''entries'', ''values'', ''forEach'', ''filter'', ''flat'', ''flatMap'',
      ''map'', ''every'', ''some'', ''reduce'', ''reduceRight'', ''toReversed'', ''toSorted'',
      ''toSpliced'', ''with'']"

text \<open>The value of a decimal digit, from its character code.\<close>

fun digitValue :: "char \<Rightarrow> nat option" where
  "digitValue c = (if c \<in> set ''0123456789'' then Some (of_char c - 48) else None)"

fun digitsValue :: "nat \<Rightarrow> string \<Rightarrow> nat option" where
  "digitsValue acc [] = Some acc"
| "digitsValue acc (c # cs) =
     (case digitValue c of None \<Rightarrow> None | Some d \<Rightarrow> digitsValue (10 * acc + d) cs)"

text \<open>An array index is written in canonical decimal: digits, no leading zero.\<close>

fun arrayIndex :: "string \<Rightarrow> nat option" where
  "arrayIndex [] = None"
| "arrayIndex [c] = digitValue c"
| "arrayIndex (c # d # cs) = (if c = CHR ''0'' then None else digitsValue 0 (c # d # cs))"

text \<open>
  Property lookup \<^verbatim>\<open>this.tools[name]\<close>: the object's own property of that name if there
  is one, else the member inherited under that name, else \<^verbatim>\<open>undefined\<close>.
\<close>

fun getProperty :: "toolStore \<Rightarrow> string \<Rightarrow> jsValue" where
  "getProperty (ToolObject kvs) name =
     (case map_of kvs name of
        Some t \<Rightarrow> ToolRef t
      | None \<Rightarrow> if name \<in> set objectPrototype then Inherited name else Undefined)"
| "getProperty (ToolArray ts) name =
     (case arrayIndex name of
        Some i \<Rightarrow>
          if i < length ts then ToolRef (ts ! i)
          else if name \<in> set (arrayPrototype @ objectPrototype) then Inherited name
          else Undefined
      | None \<Rightarrow>
          if name = ''length'' then Num (length ts)
          else if name \<in> set (arrayPrototype @ objectPrototype) then Inherited name
          else Undefined)"

text \<open>
  \<^verbatim>\<open>JSON.parse(orchestrationResponse.content.toString())\<close> as far as the code tells its
  outcomes apart: no JSON at all (\<^verbatim>\<open>JSON.parse\<close> throws), JSON that is not an array
  (it has no \<^verbatim>\<open>map\<close> to call), or an array, whose elements are strings as the annotation
  \<^verbatim>\<open>string[]\<close> says. The chat model is outside the program: it answers the prompt built
  from the agent and the message, or its \<^verbatim>\<open>invoke\<close> fails.
\<close>

datatype parsed = NotJson | JsonNonArray | JsonNames "string list"

datatype reply = InvokeError error | Content parsed

type_synonym chatModel = "agent \<Rightarrow> string \<Rightarrow> reply"

text \<open>The statements inside the \<^verbatim>\<open>try\<close> of \<^verbatim>\<open>orchestrate\<close>.\<close>

definition orchestrateTry :: "agent \<Rightarrow> chatModel \<Rightarrow> string \<Rightarrow> error + jsValue list" where
  "orchestrateTry ag chat msg =
     (case chat ag msg of
        InvokeError err \<Rightarrow> Inl err
      | Content NotJson \<Rightarrow> Inl (SyntaxError ''Unexpected token'')
      | Content JsonNonArray \<Rightarrow> Inl (TypeError ''toolNames.map is not a function'')
      | Content (JsonNames toolNames) \<Rightarrow> Inr (map (\<lambda>name. getProperty (tools ag) name) toolNames))"

text \<open>
  \<^verbatim>\<open>orchestrate\<close>: the list it returns and what it logs. A mapped array is never falsy,
  so the \<^verbatim>\<open>|| []\<close> after \<^verbatim>\<open>map\<close> never applies.
\<close>

definition orchestrate :: "agent \<Rightarrow> chatModel \<Rightarrow> string \<Rightarrow> jsValue list \<times> string list" where
  "orchestrate ag chat msg =
     (case orchestrateTry ag chat msg of
        Inl err \<Rightarrow> ([], [''Error in orchestration:''])
      | Inr ts \<Rightarrow> (ts, []))"

text \<open>
  \<^verbatim>\<open>createReactAgent\<close> is outside the program. The executor it builds is represented by
  the configuration it was given; \<open>create\<close> tells for which configurations the call
  throws, and with what.
\<close>

record executor =
  ex_tools :: "jsValue list"
  ex_saver :: "saver option"
  ex_prompt :: "string option"

datatype sendResult = Executor executor | ErrorValue error

text \<open>
  \<^verbatim>\<open>messageAgent\<close>: it returns the executor, or, from its \<^verbatim>\<open>catch\<close>, the error as a value.
\<close>

definition messageAgent :: "agent \<Rightarrow> chatModel \<Rightarrow> (executor \<Rightarrow> error option) \<Rightarrow> string
    \<Rightarrow> sendResult \<times> string list" where
  "messageAgent ag chat create msg =
     (case orchestrate ag chat msg of
        (ts, log) \<Rightarrow>
          (let ex = \<lparr>ex_tools = ts, ex_saver = checkPointSaver ag, ex_prompt = systemPrompt ag\<rparr>
           in case create ex of
                Some err \<Rightarrow> (ErrorValue err, log @ [''Message agent error:''])
              | None \<Rightarrow> (Executor ex, log)))"

section \<open>The \<^verbatim>\<open>Agent\<close> variant whose \<^verbatim>\<open>orchestrate\<close> builds the executor\<close>

text \<open>
  In the first class of \<^verbatim>\<open>agent/index.ts\<close>, \<^verbatim>\<open>orchestrate\<close> itself calls
  \<^verbatim>\<open>createReactAgent\<close> on the mapped tools and returns the executor; its \<^verbatim>\<open>catch\<close>
  returns \<^verbatim>\<open>false\<close> (\<open>None\<close> here).
\<close>

definition orchestrateATry :: "agent \<Rightarrow> chatModel \<Rightarrow> (executor \<Rightarrow> error option) \<Rightarrow> string
    \<Rightarrow> error + executor" where
  "orchestrateATry ag chat create msg =
     (case chat ag msg of
        InvokeError err \<Rightarrow> Inl err
      | Content NotJson \<Rightarrow> Inl (SyntaxError ''Unexpected token'')
      | Content JsonNonArray \<Rightarrow> Inl (TypeError ''toolNames.map is not a function'')
      | Content (JsonNames toolNames) \<Rightarrow>
          (let ex = \<lparr>ex_tools = map (\<lambda>name. getProperty (tools ag) name) toolNames,
                     ex_saver = checkPointSaver ag, ex_prompt = None\<rparr>
           in case create ex of Some err \<Rightarrow> Inl err | None \<Rightarrow> Inr ex))"

definition orchestrateA :: "agent \<Rightarrow> chatModel \<Rightarrow> (executor \<Rightarrow> error option) \<Rightarrow> string
    \<Rightarrow> executor option \<times> string list" where
  "orchestrateA ag chat create msg =
     (case orchestrateATry ag chat create msg of
        Inl err \<Rightarrow> (None, [''Error in orchestration:''])
      | Inr ex \<Rightarrow> (Some ex, []))"

text \<open>
  What \<^verbatim>\<open>messageAgent\<close> of that variant meets outside the program: whether the
  checkpoint saver's \<^verbatim>\<open>get\<close> throws or else finds a checkpoint, and what the executor's
  \<^verbatim>\<open>invoke\<close> does: throw, or answer with the contents of its messages.
\<close>

record sendEnv =
  saverGet :: "error + bool"
  invokeExecutor :: "executor \<Rightarrow> error + string list"

text \<open>
  The inner \<^verbatim>\<open>try\<close>: it leaves \<^verbatim>\<open>response\<close> set (\<open>Some\<close>) or \<^verbatim>\<open>undefined\<close>. Without a
  checkpoint saver \<^verbatim>\<open>this.checkPointSaver.get\<close> raises. With a checkpoint the code
  calls \<^verbatim>\<open>this.agent.invoke\<close>, and \<^verbatim>\<open>this.agent\<close> is the string \<^verbatim>\<open>""\<close> or unset, so that
  call raises too.
\<close>

definition invokeTry :: "agent \<Rightarrow> executor \<Rightarrow> sendEnv \<Rightarrow> string list option \<times> string list" where
  "invokeTry ag ex env =
     (case checkPointSaver ag of
        None \<Rightarrow> (None, [''Error invoking agent:''])
      | Some sv \<Rightarrow>
          (case saverGet env of
             Inl err \<Rightarrow> (None, [''Error invoking agent:''])
           | Inr found \<Rightarrow>
               if found then (None, [''Error invoking agent:''])
               else (case invokeExecutor env ex of
                       Inl err \<Rightarrow> (None, [''Error invoking agent:''])
                     | Inr messages \<Rightarrow> (Some messages, []))))"

text \<open>
  \<^verbatim>\<open>messageAgent\<close> of that variant: the content of the last message, or \<^verbatim>\<open>undefined\<close>
  (\<open>None\<close>) when the outer \<^verbatim>\<open>catch\<close> ends the call: after \<^verbatim>\<open>throw new Error("Agent failed")\<close>
  for a falsy executor, or after reading \<^verbatim>\<open>messages\<close> of an undefined response or
  \<^verbatim>\<open>content\<close> of a missing last message.
\<close>

definition messageAgentA :: "agent \<Rightarrow> chatModel \<Rightarrow> (executor \<Rightarrow> error option) \<Rightarrow> sendEnv \<Rightarrow> string
    \<Rightarrow> string option \<times> string list" where
  "messageAgentA ag chat create env msg =
     (case orchestrateA ag chat create msg of
        (None, log) \<Rightarrow> (None, log @ [''Message agent error:''])
      | (Some ex, log) \<Rightarrow>
          (case invokeTry ag ex env of
             (None, log') \<Rightarrow> (None, log @ log' @ [''Message agent error:''])
           | (Some [], log') \<Rightarrow> (None, log @ log' @ [''Message agent error:''])
           | (Some (m # ms), log') \<Rightarrow> (Some (last (m # ms)), log @ log')))"

text \<open>
  The tools contributed by the successful factories of one run of \<^verbatim>\<open>initialize\<close> with
  arguments \<open>args\<close> on agent \<open>ag\<close>: the tools of every factory of the effective list whose
  callback returns its tool item.
\<close>

definition contributed :: "agent \<Rightarrow> initArgs \<Rightarrow> tool set" where
  "contributed ag args =
     (\<Union>f \<in> set (effectiveFactories (clients args) (allRegistry args) (toolNumbers args)).
        set (loadedTools ag (f ag)))"

section \<open>Example inputs\<close>

text \<open>
  Two factories that each declare one tool named \<^verbatim>\<open>X\<close> (two different tool objects), a
  factory that throws, an agent whose tool collection is an empty array, as the
  constructor of the class with \<^verbatim>\<open>tools: any[]\<close> leaves it, and a params object in a store.
\<close>

definition toolX1 :: tool where
  "toolX1 = \<lparr>tool_name = ''X'', tool_description = ''first'', tool_ident = 1\<rparr>"

definition toolX2 :: tool where
  "toolX2 = \<lparr>tool_name = ''X'', tool_description = ''second'', tool_ident = 2\<rparr>"

definition itemX1 :: toolItem where
  "itemX1 = \<lparr>ti_tools = [toolX1],
     ti_schema = [(''X'', \<lparr>ts_name = ''X'', ts_description = ''first'', ts_requiresApproval = None\<rparr>)]\<rparr>"

definition itemX2 :: toolItem where
  "itemX2 = \<lparr>ti_tools = [toolX2],
     ti_schema = [(''X'', \<lparr>ts_name = ''X'', ts_description = ''second'', ts_requiresApproval = Some True\<rparr>)]\<rparr>"

definition factoryX1 :: factory where
  "factoryX1 ag = Inr itemX1"

definition factoryX2 :: factory where
  "factoryX2 ag = Inr itemX2"

definition factoryThrows :: factory where
  "factoryThrows ag = Inl (Error ''boom'')"

definition arrayAgent :: agent where
  "arrayAgent = \<lparr>threadId = ''t1'', params = 0, tools = ToolArray [], toolMetadata = [],
     systemPrompt = None, mongoClient = None, checkPointSaver = None\<rparr>"

definition objectAgent :: agent where
  "objectAgent = \<lparr>threadId = ''t1'', params = 0, tools = ToolObject [], toolMetadata = [],
     systemPrompt = None, mongoClient = None, checkPointSaver = None\<rparr>"

definition callerStore :: store where
  "callerStore =
     [0 \<mapsto> \<lparr>p_name = ''bot'', p_instruction = ''help'', p_toolKnowledge = Some [''hint''],
           p_assignable = True\<rparr>]"

text \<open>
  An agent whose tool object has the one entry \<^verbatim>\<open>X\<close>, chat models with fixed replies, a
  \<^verbatim>\<open>createReactAgent\<close> that never throws, and arguments and surroundings for \<^verbatim>\<open>initialize\<close>.
\<close>

definition keyedAgent :: agent where
  "keyedAgent = \<lparr>threadId = ''t1'', params = 0, tools = ToolObject [(''X'', toolX1)],
     toolMetadata = [], systemPrompt = None, mongoClient = None, checkPointSaver = None\<rparr>"

definition chatNotJson :: chatModel where
  "chatNotJson ag msg = Content NotJson"

definition chatSentinel :: chatModel where
  "chatSentinel ag msg = Content (JsonNames [''X'', ''INVALID_TOOL:swap''])"

definition chatUnknown :: chatModel where
  "chatUnknown ag msg = Content (JsonNames [''ghost'', ''toString''])"

definition createOk :: "executor \<Rightarrow> error option" where
  "createOk ex = None"

definition quietEnv :: sendEnv where
  "quietEnv = \<lparr>saverGet = Inr False, invokeExecutor = (\<lambda>ex. Inr [''done''])\<rparr>"

definition firstRun :: initArgs where
  "firstRun = \<lparr>toolNumbers = [], clients = [factoryX1], allRegistry = [], checkPointerArg = Local\<rparr>"

definition secondRun :: initArgs where
  "secondRun = \<lparr>toolNumbers = [0], clients = [], allRegistry = [factoryX2], checkPointerArg = Local\<rparr>"

definition mongoRun :: initArgs where
  "mongoRun = \<lparr>toolNumbers = [], clients = [], allRegistry = [], checkPointerArg = Mongo\<rparr>"

definition oneSettles :: initEnv where
  "oneSettles = \<lparr>settleOrder = [0], connectError = None, mongoUri = ''mongodb://db'', clock = ''t0''\<rparr>"

definition mongoDown :: initEnv where
  "mongoDown = \<lparr>settleOrder = [], connectError = Some ''ECONNREFUSED'',
     mongoUri = ''mongodb://db'', clock = ''t0''\<rparr>"

text \<open>
  The store once \<^verbatim>\<open>new Agent\<close> has run on the caller's params object, and the agent that
  \<^verbatim>\<open>initialize\<close> with the in-memory checkpoint saver makes of the constructed one when no
  tool is registered.
\<close>

definition constructedStore :: store where
  "constructedStore =
     [0 \<mapsto> \<lparr>p_name = ''bot'', p_instruction = ''help'', p_toolKnowledge = Some [],
           p_assignable = True\<rparr>]"

definition initializedAgent :: agent where
  "initializedAgent = objectAgent
     \<lparr>systemPrompt := Some (systemPromptHoles
         \<lparr>p_name = ''bot'', p_instruction = ''help'', p_toolKnowledge = Some [],
            p_assignable = True\<rparr> ''t0'' []),
      checkPointSaver := Some MemorySaver\<rparr>"


section \<open>Properties\<close>

subsection \<open>The effective factory list\<close>

lemma filter_idx_nths:
  "filter_idx (\<lambda>_ i. P i) xs k = nths xs {i. P (i + k)}"
proof (induction xs arbitrary: k)
  case Nil
  show ?case by simp
next
  case (Cons x xs)
  have "{j. P (Suc j + k)} = {i. P (i + Suc k)}" by simp
  with Cons show ?case by (simp add: nths_Cons)
qed

lemma filteredToolBunches_nths:
  "filteredToolBunches A S = nths A {i. int i \<in> set S}"
  by (simp add: filteredToolBunches_def includesNum_def filter_idx_nths)

text \<open>
  Claim C1. For every core list \<open>C\<close>, all-registry list \<open>A\<close> and index list \<open>S\<close>, the list
  of factories that \<^verbatim>\<open>exportToolsAndSetMetadata\<close> invokes is \<open>C\<close> followed by the elements
  of \<open>A\<close> whose position is a member of \<open>S\<close>, in the order they have in \<open>A\<close>
  (\<^const>\<open>nths\<close> keeps the elements at the given positions, in their original order).
  Only the membership in \<open>S\<close> counts: another index list with the same members, in
  whatever order and with whatever repetitions, resolves to the same factory list.
\<close>

theorem effectiveFactories_core_then_selected:
  "effectiveFactories C A S = C @ nths A {i. int i \<in> set S} \<and>
   (set S' = set S \<longrightarrow> effectiveFactories C A S' = effectiveFactories C A S)"
  by (simp add: effectiveFactories_def filteredToolBunches_nths)

theorem effectiveFactories_core_then_selected_witness:
  "effectiveFactories [''c0'', ''c1''] [''a0'', ''a1'', ''a2''] [2, 0]
     = [''c0'', ''c1'', ''a0'', ''a2''] \<and>
   effectiveFactories [''c0'', ''c1''] [''a0'', ''a1'', ''a2''] [0, 2, 2]
     = effectiveFactories [''c0'', ''c1''] [''a0'', ''a1'', ''a2''] [2, 0]"
proof -
  have s: "set [0, 2, 2 :: int] = set [2, 0]" by auto
  have e: "effectiveFactories [''c0'', ''c1''] [''a0'', ''a1'', ''a2''] [2, 0]
     = [''c0'', ''c1'', ''a0'', ''a2'']"
    by (simp add: effectiveFactories_def filteredToolBunches_def includesNum_def)
  from effectiveFactories_core_then_selected
    [of "[''c0'', ''c1'']" "[''a0'', ''a1'', ''a2'']" "[2, 0]" "[0, 2, 2]"] s e
  show ?thesis by simp
qed

subsection \<open>Settling the factories\<close>

lemma loaded_eq:
  "loaded ag out = (case out of Inl e \<Rightarrow> None | Inr item \<Rightarrow> if isArray (tools ag) then Some item else None)"
  by (cases out; cases "tools ag") (simp_all add: loaded_def toolCallback_def)

lemma toolCallback_eq:
  "toolCallback ag md out =
     (if isArray (tools ag) then ag\<lparr>tools := ToolArray (toolValues (tools ag) @ loadedTools ag out)\<rparr> else ag,
      md @ loadedMeta ag out, loaded ag out)"
  by (cases out; cases "tools ag"; cases ag)
     (simp_all add: loadedTools_def loadedMeta_def loaded_eq toolCallback_def)

lemma loaded_tools_update [simp]:
  "loaded (ag\<lparr>tools := ToolArray ts\<rparr>) out = (case out of Inl e \<Rightarrow> None | Inr item \<Rightarrow> Some item)"
  by (simp add: loaded_eq split: sum.splits)

lemma settleAll_array:
  "tools ag = ToolArray ts \<Longrightarrow> length rs = length outs \<Longrightarrow>
   settleAll outs sched ag md rs =
     (ag\<lparr>tools := ToolArray (ts @ concat (map (\<lambda>i. loadedTools ag (outs ! i)) (filter (\<lambda>i. i < length outs) sched)))\<rparr>,
      md @ concat (map (\<lambda>i. loadedMeta ag (outs ! i)) (filter (\<lambda>i. i < length outs) sched)),
      fold (\<lambda>i rs. rs[i := Some (Fulfilled (loaded ag (outs ! i)))]) (filter (\<lambda>i. i < length outs) sched) rs)"
proof (induction sched arbitrary: ag ts md rs)
  case Nil
  then show ?case by (cases ag) simp
next
  case (Cons i sched)
  show ?case
  proof (cases "i < length outs")
    case False
    with Cons show ?thesis by simp
  next
    case True
    let ?ag' = "ag\<lparr>tools := ToolArray (ts @ loadedTools ag (outs ! i))\<rparr>"
    have same: "loaded ?ag' = loaded ag" "loadedTools ?ag' = loadedTools ag" "loadedMeta ?ag' = loadedMeta ag"
      using Cons.prems(1) by (auto simp: fun_eq_iff loaded_eq loadedTools_def loadedMeta_def split: sum.splits)
    have "tools ?ag' = ToolArray (ts @ loadedTools ag (outs ! i))" by simp
    from Cons.IH [OF this, of "rs[i := Some (Fulfilled (loaded ag (outs ! i)))]" "md @ loadedMeta ag (outs ! i)"]
      Cons.prems True
    show ?thesis by (simp add: toolCallback_eq same)
  qed
qed

lemma settleAll_object:
  "tools ag = ToolObject kvs \<Longrightarrow>
   settleAll outs sched ag md rs =
     (ag, md, fold (\<lambda>i rs. rs[i := Some (Fulfilled None)]) (filter (\<lambda>i. i < length outs) sched) rs)"
proof (induction sched arbitrary: rs)
  case Nil
  then show ?case by simp
next
  case (Cons i sched)
  then show ?case by (simp add: toolCallback_eq loaded_eq loadedMeta_def split: sum.splits)
qed

lemma fold_update_nth:
  "i < length rs \<Longrightarrow>
   fold (\<lambda>i rs. rs[i := g i]) sched rs ! i = (if i \<in> set sched then g i else rs ! i)"
  by (induction sched arbitrary: rs) (auto simp: nth_list_update)

lemma fold_update_length [simp]:
  "length (fold (\<lambda>i rs. rs[i := g i]) sched rs) = length rs"
  by (induction sched arbitrary: rs) auto

lemma allSettled_map_Some [simp]: "allSettled (map Some xs) = Some xs"
  by (induction xs) simp_all

lemma allSettled_map_comp [simp]: "allSettled (map (Some \<circ> g) xs) = Some (map g xs)"
  by (induction xs) simp_all

lemma fold_update_complete:
  assumes "completeSchedule n sched"
  shows "fold (\<lambda>i rs. rs[i := Some (g i)]) (filter (\<lambda>i. i < n) sched) (replicate n None)
         = map Some (map g [0..<n])"
proof (rule nth_equalityI)
  show "length (fold (\<lambda>i rs. rs[i := Some (g i)]) (filter (\<lambda>i. i < n) sched) (replicate n None)) = length (map Some (map g [0..<n]))"
    by simp
next
  fix i assume "i < length (fold (\<lambda>i rs. rs[i := Some (g i)]) (filter (\<lambda>i. i < n) sched) (replicate n None))"
  then have i: "i < n" by simp
  with assms have "i \<in> set (filter (\<lambda>i. i < n) sched)" by (simp add: completeSchedule_def)
  with i show "fold (\<lambda>i rs. rs[i := Some (g i)]) (filter (\<lambda>i. i < n) sched) (replicate n None) ! i = map Some (map g [0..<n]) ! i"
    by (simp add: fold_update_nth)
qed

lemma completeSchedule_filter:
  "completeSchedule n sched \<Longrightarrow> filter (\<lambda>i. i < n) sched = sched"
  by (simp add: completeSchedule_def filter_id_conv)

lemma export_complete:
  assumes "completeSchedule (length (effectiveFactories core all nums)) sched"
  shows "exportToolsAndSetMetadata ag nums core all sched =
     Some (ag\<lparr>tools := (if isArray (tools ag)
                 then ToolArray (toolValues (tools ag) @
                        concat (map (\<lambda>i. loadedTools ag ((effectiveFactories core all nums ! i) ag)) sched))
                 else tools ag),
              toolMetadata := joinWith [CHR 0x0A, CHR 0x0A]
                 (concat (map (\<lambda>i. loadedMeta ag ((effectiveFactories core all nums ! i) ag)) sched))\<rparr>,
           map (\<lambda>f. Fulfilled (loaded ag (f ag))) (effectiveFactories core all nums))"
proof -
  define fs where "fs = effectiveFactories core all nums"
  define outs where "outs = map (\<lambda>item. item ag) fs"
  have n: "length outs = length fs" by (simp add: outs_def)
  have flt: "filter (\<lambda>i. i < length outs) sched = sched"
    using assms by (simp add: completeSchedule_filter fs_def n)
  have flt': "filter (\<lambda>i. i < length fs) sched = sched"
    using flt by (simp add: n)
  have cs: "completeSchedule (length outs) sched" using assms by (simp add: fs_def n)
  have nth: "\<And>i. i \<in> set sched \<Longrightarrow> outs ! i = (fs ! i) ag"
    using cs by (simp add: completeSchedule_def outs_def)
  have m1: "map (\<lambda>i. loadedTools ag (outs ! i)) sched = map (\<lambda>i. loadedTools ag ((fs ! i) ag)) sched"
    by (rule map_cong) (simp_all add: nth)
  have m2: "map (\<lambda>i. loadedMeta ag (outs ! i)) sched = map (\<lambda>i. loadedMeta ag ((fs ! i) ag)) sched"
    by (rule map_cong) (simp_all add: nth)
  have res: "fold (\<lambda>i rs. rs[i := Some (Fulfilled (loaded ag (outs ! i)))]) sched (replicate (length outs) None)
        = map Some (map (\<lambda>f. Fulfilled (loaded ag (f ag))) fs)"
  proof -
    have "fold (\<lambda>i rs. rs[i := Some (Fulfilled (loaded ag (outs ! i)))]) (filter (\<lambda>i. i < length outs) sched) (replicate (length outs) None)
        = map Some (map (\<lambda>i. Fulfilled (loaded ag (outs ! i))) [0..<length outs])"
      by (rule fold_update_complete [OF cs])
    also have "map (\<lambda>i. Fulfilled (loaded ag (outs ! i))) [0..<length outs] = map (\<lambda>out. Fulfilled (loaded ag out)) outs"
      by (rule nth_equalityI) simp_all
    finally have "fold (\<lambda>i rs. rs[i := Some (Fulfilled (loaded ag (outs ! i)))]) (filter (\<lambda>i. i < length outs) sched) (replicate (length outs) None)
        = map Some (map (\<lambda>out. Fulfilled (loaded ag out)) outs)" .
    then have "fold (\<lambda>i rs. rs[i := Some (Fulfilled (loaded ag (outs ! i)))]) sched (replicate (length outs) None)
        = map Some (map (\<lambda>out. Fulfilled (loaded ag out)) outs)" by (simp only: flt)
    also have "map (\<lambda>out. Fulfilled (loaded ag out)) outs = map (\<lambda>f. Fulfilled (loaded ag (f ag))) fs"
      by (simp add: outs_def o_def)
    finally show ?thesis .
  qed
  show ?thesis
  proof (cases "tools ag")
    case (ToolArray ts)
    have "settleAll outs sched ag [] (replicate (length fs) None) =
        (ag\<lparr>tools := ToolArray (ts @ concat (map (\<lambda>i. loadedTools ag ((fs ! i) ag)) sched))\<rparr>,
         concat (map (\<lambda>i. loadedMeta ag ((fs ! i) ag)) sched),
         map Some (map (\<lambda>f. Fulfilled (loaded ag (f ag))) fs))"
      using settleAll_array [OF ToolArray, of "replicate (length fs) None" outs sched "[]"] res
      by (simp add: n flt' m1 m2 o_def)
    then show ?thesis
      using ToolArray by (simp add: exportToolsAndSetMetadata_def fs_def [symmetric] outs_def [symmetric])
  next
    case (ToolObject kvs)
    have l: "\<And>out. loaded ag out = None" "\<And>out. loadedMeta ag out = []"
      using ToolObject by (simp_all add: loaded_eq loadedMeta_def split: sum.splits)
    have agq: "ag\<lparr>tools := ToolObject kvs\<rparr> = ag"
      using ToolObject by (cases ag) simp
    have cc: "concat (map (\<lambda>i. []) sched) = ([] :: string list)"
      by (induction sched) simp_all
    have "settleAll outs sched ag [] (replicate (length fs) None) =
        (ag, [], map Some (map (\<lambda>f. Fulfilled (loaded ag (f ag))) fs))"
      using settleAll_object [OF ToolObject, of outs sched "[]" "replicate (length fs) None"] res
      by (simp add: n flt' l o_def)
    then show ?thesis
      using ToolObject by (simp add: exportToolsAndSetMetadata_def fs_def [symmetric] outs_def [symmetric] l agq cc)
  qed
qed

lemma completeSchedule_mem:
  "completeSchedule n sched \<Longrightarrow> i \<in> set sched \<longleftrightarrow> i < n"
  by (simp add: completeSchedule_def)

text \<open>
  Where every factory call that resolves is also loaded (its callback returns the tool
  item, \<open>loaded\<close>; by \<open>loaded_eq\<close> this is the case exactly when the agent's tool
  collection is an array), failures are isolated. The call returns, with one outcome per
  factory of the effective list: \<^verbatim>\<open>null\<close> for a factory that threw, the tool item for any
  other, whose tools are all in the agent's collection afterwards. The collection grows
  by the tools of the factories that did not throw and by nothing else, and the metadata
  string is made of their schema entries only, in settlement order.
\<close>

lemma failure_isolated_where_loaded:
  fixes ag :: agent and core all :: "factory list" and nums :: "int list"
  defines "fs \<equiv> effectiveFactories core all nums"
  assumes sched: "completeSchedule (length fs) sched"
    and others_succeed:
      "\<forall>i < length fs. \<forall>item. (fs ! i) ag = Inr item \<longrightarrow> loaded ag ((fs ! i) ag) = Some item"
  shows "\<exists>ag' results.
     exportToolsAndSetMetadata ag nums core all sched = Some (ag', results) \<and>
     length results = length fs \<and>
     (\<forall>i < length fs.
        case (fs ! i) ag of
          Inl err \<Rightarrow> results ! i = Fulfilled None
        | Inr item \<Rightarrow> results ! i = Fulfilled (Some item) \<and>
                      set (ti_tools item) \<subseteq> set (toolValues (tools ag'))) \<and>
     toolValues (tools ag') = toolValues (tools ag) @
        concat (map (\<lambda>i. case (fs ! i) ag of Inl err \<Rightarrow> [] | Inr item \<Rightarrow> ti_tools item) sched) \<and>
     toolMetadata ag' = joinWith [CHR 0x0A, CHR 0x0A]
        (concat (map (\<lambda>i. case (fs ! i) ag of
                              Inl err \<Rightarrow> []
                            | Inr item \<Rightarrow> map metadataEntry (objectValues (ti_schema item))) sched))"
proof -
  let ?T = "\<lambda>i. case (fs ! i) ag of Inl err \<Rightarrow> [] | Inr item \<Rightarrow> ti_tools item"
  let ?M = "\<lambda>i. case (fs ! i) ag of Inl err \<Rightarrow> []
                 | Inr item \<Rightarrow> map metadataEntry (objectValues (ti_schema item))"
  have ld: "loaded ag ((fs ! i) ag) = (case (fs ! i) ag of Inl err \<Rightarrow> None | Inr item \<Rightarrow> Some item)"
    if "i < length fs" for i
    using others_succeed that by (cases "(fs ! i) ag") (simp_all add: loaded_eq)
  have inr: "i < length fs" if "i \<in> set sched" for i
    using sched that by (simp add: completeSchedule_mem)
  have mT: "map (\<lambda>i. loadedTools ag ((fs ! i) ag)) sched = map ?T sched"
    by (rule map_cong) (auto simp: loadedTools_def ld inr split: sum.splits)
  have mM: "map (\<lambda>i. loadedMeta ag ((fs ! i) ag)) sched = map ?M sched"
    by (rule map_cong) (auto simp: loadedMeta_def ld inr split: sum.splits)
  define T where "T = concat (map ?T sched)"
  define ag' where "ag' = ag\<lparr>tools := (if isArray (tools ag) then ToolArray (toolValues (tools ag) @ T) else tools ag),
       toolMetadata := joinWith [CHR 0x0A, CHR 0x0A] (concat (map ?M sched))\<rparr>"
  define results where "results = map (\<lambda>f. Fulfilled (loaded ag (f ag))) fs"
  have ex: "exportToolsAndSetMetadata ag nums core all sched = Some (ag', results)"
    using export_complete [of core all nums sched ag] sched
    by (simp add: fs_def [symmetric] mT mM ag'_def results_def T_def)
  have len: "length results = length fs" by (simp add: results_def)
  have Tnil: "T = []" if "\<not> isArray (tools ag)"
  proof -
    have "?T i = []" if "i \<in> set sched" for i
      using ld [OF inr [OF that]] \<open>\<not> isArray (tools ag)\<close>
      by (cases "(fs ! i) ag") (simp_all add: loaded_eq)
    then have "map ?T sched = map (\<lambda>i. []) sched" by (intro map_cong) simp_all
    then show ?thesis by (simp add: T_def)
  qed
  have tv: "toolValues (tools ag') = toolValues (tools ag) @ T"
    using Tnil by (cases "isArray (tools ag)") (simp_all add: ag'_def)
  have md: "toolMetadata ag' = joinWith [CHR 0x0A, CHR 0x0A] (concat (map ?M sched))"
    by (simp add: ag'_def)
  have per: "case (fs ! i) ag of
          Inl err \<Rightarrow> results ! i = Fulfilled None
        | Inr item \<Rightarrow> results ! i = Fulfilled (Some item) \<and>
                      set (ti_tools item) \<subseteq> set (toolValues (tools ag'))"
    if i: "i < length fs" for i
  proof (cases "(fs ! i) ag")
    case (Inl err)
    with i ld [OF i] show ?thesis by (simp add: results_def)
  next
    case (Inr item)
    from i sched have "i \<in> set sched" by (simp add: completeSchedule_mem)
    then have "set (?T i) \<subseteq> set T" by (auto simp: T_def)
    with Inr i ld [OF i] tv show ?thesis by (auto simp: results_def)
  qed
  from ex len per tv md show ?thesis unfolding T_def by blast
qed

lemma failure_isolated_on_array:
  "\<exists>ag' results.
      exportToolsAndSetMetadata arrayAgent [0, 1] [] [factoryX1, factoryThrows] [1, 0]
        = Some (ag', results) \<and>
      results = [Fulfilled (Some itemX1), Fulfilled None] \<and>
      toolValues (tools ag') = [toolX1] \<and>
      toolMetadata ag' = metadataEntry (snd (hd (ti_schema itemX1)))"
proof -
  have fs: "effectiveFactories [] [factoryX1, factoryThrows] [0, 1] = [factoryX1, factoryThrows]"
    by (simp add: effectiveFactories_def filteredToolBunches_def includesNum_def)
  have h1: "completeSchedule (length (effectiveFactories [] [factoryX1, factoryThrows] [0, 1])) [1, 0]"
    by (auto simp: fs completeSchedule_def)
  have h2: "\<forall>i < length (effectiveFactories [] [factoryX1, factoryThrows] [0, 1]). \<forall>item.
      (effectiveFactories [] [factoryX1, factoryThrows] [0, 1] ! i) arrayAgent = Inr item \<longrightarrow>
      loaded arrayAgent ((effectiveFactories [] [factoryX1, factoryThrows] [0, 1] ! i) arrayAgent)
        = Some item"
    by (simp add: fs loaded_eq arrayAgent_def)
  from failure_isolated_where_loaded [OF h1 h2]
  obtain ag' results where
    ex: "exportToolsAndSetMetadata arrayAgent [0, 1] [] [factoryX1, factoryThrows] [1, 0]
        = Some (ag', results)"
    and len: "length results = 2"
    and per: "\<forall>i < 2. case ([factoryX1, factoryThrows] ! i) arrayAgent of
          Inl err \<Rightarrow> results ! i = Fulfilled None
        | Inr item \<Rightarrow> results ! i = Fulfilled (Some item) \<and>
                      set (ti_tools item) \<subseteq> set (toolValues (tools ag'))"
    and tv: "toolValues (tools ag') = toolValues (tools arrayAgent) @
        concat (map (\<lambda>i. case ([factoryX1, factoryThrows] ! i) arrayAgent of
                              Inl err \<Rightarrow> [] | Inr item \<Rightarrow> ti_tools item) [1, 0])"
    and md: "toolMetadata ag' = joinWith [CHR 0x0A, CHR 0x0A]
        (concat (map (\<lambda>i. case ([factoryX1, factoryThrows] ! i) arrayAgent of
                              Inl err \<Rightarrow> []
                            | Inr item \<Rightarrow> map metadataEntry (objectValues (ti_schema item))) [1, 0]))"
    unfolding fs by auto
  from per [rule_format, of 0] have r0: "results ! 0 = Fulfilled (Some itemX1)"
    by (simp add: factoryX1_def)
  from per [rule_format, of 1] have r1: "results ! 1 = Fulfilled None"
    by (simp add: factoryThrows_def)
  have res: "results = [Fulfilled (Some itemX1), Fulfilled None]"
  proof (rule nth_equalityI)
    show "length results = length [Fulfilled (Some itemX1), Fulfilled None]" using len by simp
  next
    fix i assume "i < length results"
    with len have "i = 0 \<or> i = 1" by auto
    with r0 r1 show "results ! i = [Fulfilled (Some itemX1), Fulfilled None] ! i" by auto
  qed
  have tv': "toolValues (tools ag') = [toolX1]"
    using tv by (simp add: factoryX1_def factoryThrows_def itemX1_def arrayAgent_def)
  have md': "toolMetadata ag' = metadataEntry (snd (hd (ti_schema itemX1)))"
    using md by (simp add: factoryX1_def factoryThrows_def itemX1_def objectValues_def)
  from ex res tv' md' show ?thesis by blast
qed

text \<open>
  Claim C2. A freshly constructed agent of the class with a name-keyed tool object is
  given one factory that resolves to the tool \<^verbatim>\<open>X\<close> and one that throws, and both settle.
  The throwing factory does not stop the call, which returns one outcome per factory.
  But the factory that resolved is not registered either: \<^verbatim>\<open>push\<close> raises inside its
  callback, its outcome is \<^verbatim>\<open>null\<close> as well, and the agent's tool collection does not
  contain \<^verbatim>\<open>X\<close> afterwards; it is as empty as before, and so is the metadata string.
\<close>

theorem resolved_factory_not_registered:
  "snd (newAgent callerStore ''t1'' 0 (Some ''model'')) = Inr objectAgent \<and>
   factoryX1 objectAgent = Inr itemX1 \<and> ti_tools itemX1 = [toolX1] \<and>
   factoryThrows objectAgent = Inl (Error ''boom'') \<and>
   exportToolsAndSetMetadata objectAgent [0, 1] [] [factoryX1, factoryThrows] [1, 0]
     = Some (objectAgent, [Fulfilled None, Fulfilled None]) \<and>
   toolValues (tools objectAgent) = [] \<and>
   getProperty (tools objectAgent) ''X'' = Undefined \<and>
   toolMetadata objectAgent = []"
  by (simp add: exportToolsAndSetMetadata_def effectiveFactories_def filteredToolBunches_def
      includesNum_def toolCallback_def factoryX1_def factoryThrows_def objectAgent_def
      newAgent_def callerStore_def itemX1_def objectPrototype_def)

subsection \<open>Total failure\<close>

text \<open>Once the resolver has returned, \<^verbatim>\<open>initialize\<close> returns too, and normally.\<close>

lemma initialize_returns:
  assumes "exportToolsAndSetMetadata ag (toolNumbers a) (clients a) (allRegistry a) (settleOrder e)
     = Some (ag1, rs)"
  shows "\<exists>ag2 log. initialize h ag a e = Some (Inr (), ag2, log) \<and> tools ag2 = tools ag1"
  using assms
  by (auto simp: initialize_def initializeTry_def Let_def
      split: option.splits checkPointer.splits sum.splits prod.splits)

lemma export_all_fail:
  fixes ag :: agent and core all :: "factory list" and nums :: "int list"
  defines "fs \<equiv> effectiveFactories core all nums"
  assumes sched: "completeSchedule (length fs) sched"
    and all_fail: "\<forall>i < length fs. loaded ag ((fs ! i) ag) = None"
  shows "exportToolsAndSetMetadata ag nums core all sched =
           Some (ag\<lparr>toolMetadata := []\<rparr>, replicate (length fs) (Fulfilled None))"
proof -
  have inr: "i < length fs" if "i \<in> set sched" for i
    using sched that by (simp add: completeSchedule_mem)
  have mT: "map (\<lambda>i. loadedTools ag ((fs ! i) ag)) sched = map (\<lambda>i. []) sched"
    by (rule map_cong) (auto simp: loadedTools_def all_fail inr)
  have mM: "map (\<lambda>i. loadedMeta ag ((fs ! i) ag)) sched = map (\<lambda>i. []) sched"
    by (rule map_cong) (auto simp: loadedMeta_def all_fail inr)
  have cc: "concat (map (\<lambda>i. []) sched) = ([] :: 'x list)" for sched :: "nat list"
    by (induction sched) simp_all
  have res: "map (\<lambda>f. Fulfilled (loaded ag (f ag))) fs = replicate (length fs) (Fulfilled None)"
    by (rule nth_equalityI) (simp_all add: all_fail)
  have same: "isArray (tools ag) \<Longrightarrow>
      ag\<lparr>tools := ToolArray (toolValues (tools ag)), toolMetadata := []\<rparr> = ag\<lparr>toolMetadata := []\<rparr>"
    by (cases ag; cases "tools ag") simp_all
  show ?thesis
    using export_complete [of core all nums sched ag] sched
    by (simp add: fs_def [symmetric] mT mM cc res same)
qed

text \<open>
  Claim C3. When every factory of the effective list fails (its callback returns
  \<^verbatim>\<open>null\<close>, because the factory threw or because its tools could not be pushed) and every
  promise settles, \<^verbatim>\<open>exportToolsAndSetMetadata\<close> returns all the same: the result is the
  list of per-factory outcomes, one \<^verbatim>\<open>null\<close> per factory, the agent's tools are untouched
  and its metadata string is empty. Nothing is thrown, and the \<^verbatim>\<open>initialize\<close> that made
  the call returns normally as well, whatever the checkpoint mode.
\<close>

theorem total_failure_returns_normally:
  fixes ag :: agent and core all :: "factory list" and nums :: "int list"
  defines "fs \<equiv> effectiveFactories core all nums"
  assumes sched: "completeSchedule (length fs) sched"
    and all_fail: "\<forall>i < length fs. loaded ag ((fs ! i) ag) = None"
  shows "exportToolsAndSetMetadata ag nums core all sched =
           Some (ag\<lparr>toolMetadata := []\<rparr>, replicate (length fs) (Fulfilled None)) \<and>
         (\<exists>ag' log.
            initialize h ag
              \<lparr>toolNumbers = nums, clients = core, allRegistry = all, checkPointerArg = cp\<rparr>
              (env\<lparr>settleOrder := sched\<rparr>) = Some (Inr (), ag', log) \<and>
            tools ag' = tools ag)"
proof -
  let ?a = "\<lparr>toolNumbers = nums, clients = core, allRegistry = all, checkPointerArg = cp\<rparr>"
  let ?e = "env\<lparr>settleOrder := sched\<rparr>"
  have e: "exportToolsAndSetMetadata ag nums core all sched =
           Some (ag\<lparr>toolMetadata := []\<rparr>, replicate (length fs) (Fulfilled None))"
    using sched all_fail unfolding fs_def by (rule export_all_fail)
  then have "exportToolsAndSetMetadata ag (toolNumbers ?a) (clients ?a) (allRegistry ?a)
      (settleOrder ?e) = Some (ag\<lparr>toolMetadata := []\<rparr>, replicate (length fs) (Fulfilled None))"
    by simp
  from initialize_returns [OF this, of h] obtain ag' log where
    "initialize h ag ?a ?e = Some (Inr (), ag', log)" "tools ag' = tools ag"
    by auto
  with e show ?thesis by blast
qed

theorem total_failure_returns_normally_witness:
  "exportToolsAndSetMetadata arrayAgent [0] [factoryThrows] [factoryThrows] [0, 1] =
     Some (arrayAgent, [Fulfilled None, Fulfilled None])"
proof -
  have fs: "effectiveFactories [factoryThrows] [factoryThrows] [0] = [factoryThrows, factoryThrows]"
    by (simp add: effectiveFactories_def filteredToolBunches_def includesNum_def)
  have h1: "completeSchedule (length (effectiveFactories [factoryThrows] [factoryThrows] [0])) [0, 1]"
    by (auto simp: fs completeSchedule_def)
  have h2: "\<forall>i < length (effectiveFactories [factoryThrows] [factoryThrows] [0]).
      loaded arrayAgent ((effectiveFactories [factoryThrows] [factoryThrows] [0] ! i) arrayAgent) = None"
    by (simp add: fs loaded_eq factoryThrows_def nth_Cons split: nat.splits)
  have same: "arrayAgent\<lparr>toolMetadata := []\<rparr> = arrayAgent" by (simp add: arrayAgent_def)
  from total_failure_returns_normally [OF h1 h2, THEN conjunct1] show ?thesis
    by (simp add: fs same numeral_2_eq_2)
qed

text \<open>
  On an agent whose \<^verbatim>\<open>tools\<close> is an object, as the constructors of the two classes with
  \<^verbatim>\<open>tools: { [key: string]: toolType }\<close> leave it, every \<^verbatim>\<open>push\<close> raises inside the
  callback's \<^verbatim>\<open>try\<close>: no factory is loaded and the object stays as it was.
\<close>

lemma export_on_object:
  assumes "tools ag = ToolObject kvs"
    and "completeSchedule (length (effectiveFactories core all nums)) sched"
  shows "exportToolsAndSetMetadata ag nums core all sched =
           Some (ag\<lparr>toolMetadata := []\<rparr>,
                 replicate (length (effectiveFactories core all nums)) (Fulfilled None))"
proof (rule export_all_fail [OF assms(2)])
  show "\<forall>i < length (effectiveFactories core all nums).
          loaded ag ((effectiveFactories core all nums ! i) ag) = None"
    using assms(1) by (simp add: loaded_eq split: sum.splits)
qed

subsection \<open>Tools of the same name\<close>

text \<open>
  Claim C4. Two factories each declare a tool named \<^verbatim>\<open>X\<close>, and both resolve. On the agent
  with a name-keyed tool object, \<^verbatim>\<open>push\<close> raises for both, both callbacks return \<^verbatim>\<open>null\<close>,
  and the object holds no entry \<^verbatim>\<open>X\<close> afterwards. On the agent with a tool array both
  tools are appended, so the collection holds two entries named \<^verbatim>\<open>X\<close>, two different
  objects. In neither case does the agent hold exactly one entry for the name, the last
  one registered.
\<close>

theorem same_name_tools_not_keyed:
  "exportToolsAndSetMetadata objectAgent [0] [factoryX1] [factoryX2] [0, 1]
     = Some (objectAgent, [Fulfilled None, Fulfilled None]) \<and>
   getProperty (tools objectAgent) ''X'' = Undefined \<and>
   exportToolsAndSetMetadata arrayAgent [0] [factoryX1] [factoryX2] [0, 1]
     = Some (arrayAgent\<lparr>tools := ToolArray [toolX1, toolX2],
               toolMetadata := joinWith [CHR 0x0A, CHR 0x0A]
                 (map metadataEntry (objectValues (ti_schema itemX1 @ ti_schema itemX2)))\<rparr>,
             [Fulfilled (Some itemX1), Fulfilled (Some itemX2)]) \<and>
   filter (\<lambda>t. tool_name t = ''X'') [toolX1, toolX2] = [toolX1, toolX2] \<and> toolX1 \<noteq> toolX2"
  by (simp add: exportToolsAndSetMetadata_def effectiveFactories_def filteredToolBunches_def
      includesNum_def toolCallback_def factoryX1_def factoryX2_def objectAgent_def arrayAgent_def
      objectPrototype_def objectValues_def toolX1_def toolX2_def itemX1_def itemX2_def)

subsection \<open>Orchestration\<close>

lemma sentinel_not_inherited:
  "''INVALID_TOOL:'' @ name \<notin> set (arrayPrototype @ objectPrototype)"
  by (simp add: arrayPrototype_def objectPrototype_def)

lemma getProperty_sentinel:
  assumes "\<forall>kvs. store = ToolObject kvs \<longrightarrow> (\<forall>k \<in> fst ` set kvs. \<not> prefix ''INVALID_TOOL:'' k)"
  shows "getProperty store (''INVALID_TOOL:'' @ name) = Undefined"
proof (cases store)
  case (ToolArray ts)
  then show ?thesis using sentinel_not_inherited [of name] by simp
next
  case (ToolObject kvs)
  have p: "prefix ''INVALID_TOOL:'' (''INVALID_TOOL:'' @ name)" by (rule prefixI) (rule refl)
  have "''INVALID_TOOL:'' @ name \<notin> fst ` set kvs"
  proof
    assume "''INVALID_TOOL:'' @ name \<in> fst ` set kvs"
    with assms ToolObject have "\<not> prefix ''INVALID_TOOL:'' (''INVALID_TOOL:'' @ name)" by blast
    with p show False by contradiction
  qed
  then have "map_of kvs (''INVALID_TOOL:'' @ name) = None" by (simp add: map_of_eq_None_iff)
  with ToolObject show ?thesis using sentinel_not_inherited [of name] by simp
qed

text \<open>
  Claim C5, as amended. When the model's reply is not JSON, \<^verbatim>\<open>orchestrate\<close> of the class
  with \<^verbatim>\<open>messageAgent\<close> returning the executor catches the parse error, logs it and
  returns the empty list, and \<^verbatim>\<open>messageAgent\<close> completes: it builds the executor with
  an empty tool list, or returns the error of \<^verbatim>\<open>createReactAgent\<close> as a value. In the
  other class with an \<^verbatim>\<open>orchestrate\<close>, the \<^verbatim>\<open>catch\<close> returns \<^verbatim>\<open>false\<close>, not a list, no
  executor is built, and \<^verbatim>\<open>messageAgent\<close> logs \<^verbatim>\<open>Agent failed\<close> from its own \<^verbatim>\<open>catch\<close> and
  returns \<^verbatim>\<open>undefined\<close>. In neither class does the error reach the caller.
\<close>

theorem unparseable_reply_degrades:
  assumes "chat ag msg = Content NotJson"
  shows "orchestrate ag chat msg = ([], [''Error in orchestration:'']) \<and>
         messageAgent ag chat create msg =
           (case create \<lparr>ex_tools = [], ex_saver = checkPointSaver ag, ex_prompt = systemPrompt ag\<rparr> of
              None \<Rightarrow>
                (Executor \<lparr>ex_tools = [], ex_saver = checkPointSaver ag, ex_prompt = systemPrompt ag\<rparr>,
                 [''Error in orchestration:''])
            | Some err \<Rightarrow>
                (ErrorValue err, [''Error in orchestration:'', ''Message agent error:''])) \<and>
         orchestrateA ag chat create msg = (None, [''Error in orchestration:'']) \<and>
         messageAgentA ag chat create env msg
           = (None, [''Error in orchestration:'', ''Message agent error:''])"
  using assms
  by (auto simp: orchestrate_def orchestrateTry_def messageAgent_def orchestrateA_def
      orchestrateATry_def messageAgentA_def Let_def split: option.splits)

theorem unparseable_reply_degrades_witness:
  "orchestrate objectAgent chatNotJson ''hi'' = ([], [''Error in orchestration:'']) \<and>
   messageAgent objectAgent chatNotJson createOk ''hi'' =
     (Executor \<lparr>ex_tools = [], ex_saver = None, ex_prompt = None\<rparr>, [''Error in orchestration:'']) \<and>
   orchestrateA objectAgent chatNotJson createOk ''hi'' = (None, [''Error in orchestration:'']) \<and>
   messageAgentA objectAgent chatNotJson createOk quietEnv ''hi''
     = (None, [''Error in orchestration:'', ''Message agent error:''])"
proof -
  have h: "chatNotJson objectAgent ''hi'' = Content NotJson" by (simp add: chatNotJson_def)
  from unparseable_reply_degrades
    [where chat = chatNotJson and ag = objectAgent and msg = "''hi''"
       and create = createOk and env = quietEnv, OF h]
  show ?thesis
    by (simp add: createOk_def objectAgent_def)
qed

text \<open>
  Claim C5 as first stated fails for the class whose \<^verbatim>\<open>orchestrate\<close> builds the executor:
  on a reply that is not JSON it returns \<^verbatim>\<open>false\<close>, which is no tool list, and the
  message is answered with \<^verbatim>\<open>undefined\<close>.
\<close>

theorem orchestrateA_returns_false:
  "fst (orchestrateA objectAgent chatNotJson createOk ''hi'') = None \<and>
   fst (messageAgentA objectAgent chatNotJson createOk quietEnv ''hi'') = None"
  by (simp add: orchestrateA_def orchestrateATry_def messageAgentA_def chatNotJson_def)

text \<open>
  Claim C6. Provided no key of the agent's tool object begins with \<^verbatim>\<open>INVALID_TOOL:\<close>, a
  name of that form returned by the model looks up to \<^verbatim>\<open>undefined\<close>, and so does the
  element of the list \<^verbatim>\<open>orchestrate\<close> returns at its position: a sentinel never
  resolves to a tool. (A tool array has indices for keys, so it needs no proviso.)
\<close>

theorem sentinel_resolves_to_undefined:
  assumes keys: "\<forall>kvs. tools ag = ToolObject kvs \<longrightarrow>
                   (\<forall>k \<in> fst ` set kvs. \<not> prefix ''INVALID_TOOL:'' k)"
    and reply: "chat ag msg = Content (JsonNames names)"
    and i: "i < length names"
    and sentinel: "prefix ''INVALID_TOOL:'' (names ! i)"
  shows "getProperty (tools ag) (names ! i) = Undefined \<and>
         fst (orchestrate ag chat msg) ! i = Undefined"
proof -
  from sentinel obtain name where n: "names ! i = ''INVALID_TOOL:'' @ name"
    by (auto simp: prefix_def)
  have g: "getProperty (tools ag) (names ! i) = Undefined"
    unfolding n by (rule getProperty_sentinel [OF keys])
  with reply i show ?thesis by (simp add: orchestrate_def orchestrateTry_def)
qed

theorem sentinel_resolves_to_undefined_witness:
  "getProperty (tools keyedAgent) ''INVALID_TOOL:swap'' = Undefined \<and>
   fst (orchestrate keyedAgent chatSentinel ''hi'') = [ToolRef toolX1, Undefined]"
proof -
  have keys: "\<forall>kvs. tools keyedAgent = ToolObject kvs \<longrightarrow>
                (\<forall>k \<in> fst ` set kvs. \<not> prefix ''INVALID_TOOL:'' k)"
    by (simp add: keyedAgent_def)
  have reply: "chatSentinel keyedAgent ''hi'' = Content (JsonNames [''X'', ''INVALID_TOOL:swap''])"
    by (simp add: chatSentinel_def)
  have i: "1 < length [''X'', ''INVALID_TOOL:swap'']" by simp
  have s: "prefix ''INVALID_TOOL:'' ([''X'', ''INVALID_TOOL:swap''] ! 1)" by simp
  have o: "fst (orchestrate keyedAgent chatSentinel ''hi'')
      = [ToolRef toolX1, fst (orchestrate keyedAgent chatSentinel ''hi'') ! 1]"
    by (simp add: orchestrate_def orchestrateTry_def chatSentinel_def keyedAgent_def)
  from sentinel_resolves_to_undefined
    [where chat = chatSentinel and ag = keyedAgent and msg = "''hi''" and i = 1
       and names = "[''X'', ''INVALID_TOOL:swap'']", OF keys reply i s] o
  show ?thesis by simp
qed

text \<open>
  Claim C7, as amended. In the class whose \<^verbatim>\<open>orchestrate\<close> returns the tool list, the
  list has one element per name the model returned, in the same order, the element
  being whatever \<^verbatim>\<open>this.tools[name]\<close> is; nothing is filtered out. A name that is neither
  a key of the tool object nor the name of a member every object inherits from
  \<^verbatim>\<open>Object.prototype\<close> gives \<^verbatim>\<open>undefined\<close> at its position. The list goes to
  \<^verbatim>\<open>createReactAgent\<close> as it is.
\<close>

theorem unmatched_names_kept:
  assumes obj: "tools ag = ToolObject kvs"
    and reply: "chat ag msg = Content (JsonNames names)"
  shows "length (fst (orchestrate ag chat msg)) = length names \<and>
         (\<forall>i < length names.
            fst (orchestrate ag chat msg) ! i = getProperty (tools ag) (names ! i) \<and>
            (names ! i \<notin> fst ` set kvs \<and> names ! i \<notin> set objectPrototype \<longrightarrow>
               fst (orchestrate ag chat msg) ! i = Undefined)) \<and>
         (\<forall>create ex. fst (messageAgent ag chat create msg) = Executor ex \<longrightarrow>
            ex_tools ex = fst (orchestrate ag chat msg))"
proof -
  have o: "orchestrate ag chat msg = (map (\<lambda>name. getProperty (tools ag) name) names, [])"
    using reply by (simp add: orchestrate_def orchestrateTry_def)
  have u: "getProperty (tools ag) n = Undefined"
    if "n \<notin> fst ` set kvs" "n \<notin> set objectPrototype" for n
  proof -
    from that(1) have "map_of kvs n = None" by (simp add: map_of_eq_None_iff)
    with that(2) obj show ?thesis by simp
  qed
  have m: "ex_tools ex = fst (orchestrate ag chat msg)"
    if "fst (messageAgent ag chat create msg) = Executor ex" for create ex
    using that by (auto simp: messageAgent_def o Let_def split: option.splits)
  from o u m show ?thesis by auto
qed

theorem unmatched_names_kept_witness:
  "length (fst (orchestrate keyedAgent chatUnknown ''hi'')) = 2 \<and>
   fst (orchestrate keyedAgent chatUnknown ''hi'') ! 0 = Undefined \<and>
   fst (messageAgent keyedAgent chatUnknown createOk ''hi'')
     = Executor \<lparr>ex_tools = fst (orchestrate keyedAgent chatUnknown ''hi''),
                 ex_saver = None, ex_prompt = None\<rparr>"
proof -
  have obj: "tools keyedAgent = ToolObject [(''X'', toolX1)]" by (simp add: keyedAgent_def)
  have reply: "chatUnknown keyedAgent ''hi'' = Content (JsonNames [''ghost'', ''toString''])"
    by (simp add: chatUnknown_def)
  note w = unmatched_names_kept
    [where chat = chatUnknown and ag = keyedAgent and msg = "''hi''"
       and names = "[''ghost'', ''toString'']" and kvs = "[(''X'', toolX1)]", OF obj reply]
  from w [THEN conjunct1] have len: "length (fst (orchestrate keyedAgent chatUnknown ''hi'')) = 2"
    by simp
  from w [THEN conjunct2, THEN conjunct1, rule_format, of 0]
  have z: "fst (orchestrate keyedAgent chatUnknown ''hi'') ! 0 = Undefined"
    by (auto simp: objectPrototype_def)
  have m: "fst (messageAgent keyedAgent chatUnknown createOk ''hi'')
     = Executor \<lparr>ex_tools = fst (orchestrate keyedAgent chatUnknown ''hi''),
                 ex_saver = None, ex_prompt = None\<rparr>"
    by (simp add: messageAgent_def createOk_def keyedAgent_def split: prod.splits)
  from len z m show ?thesis by simp
qed

text \<open>
  Claim C7 as first stated fails for a name such as \<^verbatim>\<open>toString\<close>: the tool object has
  no entry of that name, yet \<^verbatim>\<open>this.tools["toString"]\<close> is the function inherited from
  \<^verbatim>\<open>Object.prototype\<close>, not \<^verbatim>\<open>undefined\<close>.
\<close>

theorem inherited_name_not_undefined:
  "tools objectAgent = ToolObject [] \<and>
   chatUnknown objectAgent ''hi'' = Content (JsonNames [''ghost'', ''toString'']) \<and>
   fst (orchestrate objectAgent chatUnknown ''hi'') = [Undefined, Inherited ''toString''] \<and>
   fst (orchestrate objectAgent chatUnknown ''hi'') ! 1 \<noteq> Undefined"
  by (simp add: orchestrate_def orchestrateTry_def objectAgent_def objectPrototype_def
      chatUnknown_def)


subsection \<open>\<^verbatim>\<open>initialize\<close>\<close>

lemma export_tools_complete:
  assumes "completeSchedule (length (effectiveFactories core all nums)) sched"
  shows "\<exists>ag1 rs. exportToolsAndSetMetadata ag nums core all sched = Some (ag1, rs) \<and>
     toolValues (tools ag1) = toolValues (tools ag) @
       concat (map (\<lambda>i. loadedTools ag ((effectiveFactories core all nums ! i) ag)) sched)"
proof (cases "isArray (tools ag)")
  case True
  with export_complete [OF assms, of ag] show ?thesis by simp
next
  case False
  then have "loadedTools ag out = []" for out
    by (simp add: loadedTools_def loaded_eq split: sum.splits)
  then have "concat (map (\<lambda>i. loadedTools ag ((effectiveFactories core all nums ! i) ag)) sched) = []"
    by simp
  with False export_complete [OF assms, of ag] show ?thesis by simp
qed

lemma set_concat_schedule:
  assumes "completeSchedule (length fs) sched"
  shows "set (concat (map (\<lambda>i. g (fs ! i)) sched)) = (\<Union>f \<in> set fs. set (g f))"
proof -
  have "set sched = {..<length fs}" using assms by (auto simp: completeSchedule_def)
  then have "set (concat (map (\<lambda>i. g (fs ! i)) sched)) = (\<Union>i \<in> {..<length fs}. set (g (fs ! i)))"
    by simp
  also have "\<dots> = (\<Union>f \<in> (\<lambda>i. fs ! i) ` {..<length fs}. set (g f))"
    by simp
  also have "(\<lambda>i. fs ! i) ` {..<length fs} = set fs"
    by (auto simp: set_conv_nth)
  finally show ?thesis .
qed

lemma initialize_tools:
  assumes "completeSchedule
      (length (effectiveFactories (clients a) (allRegistry a) (toolNumbers a))) (settleOrder e)"
  shows "\<exists>ag1 log. initialize h ag a e = Some (Inr (), ag1, log) \<and>
     set (toolValues (tools ag1)) = set (toolValues (tools ag)) \<union> contributed ag a \<and>
     prefix (toolValues (tools ag)) (toolValues (tools ag1))"
proof -
  from export_tools_complete [OF assms, of ag] obtain ag0 rs where
    ex: "exportToolsAndSetMetadata ag (toolNumbers a) (clients a) (allRegistry a) (settleOrder e)
       = Some (ag0, rs)"
    and tv: "toolValues (tools ag0) = toolValues (tools ag) @
       concat (map (\<lambda>i. loadedTools ag
          ((effectiveFactories (clients a) (allRegistry a) (toolNumbers a) ! i) ag)) (settleOrder e))"
    by blast
  from initialize_returns [OF ex, of h] obtain ag1 log where
    i: "initialize h ag a e = Some (Inr (), ag1, log)" and t: "tools ag1 = tools ag0"
    by blast
  have "set (toolValues (tools ag1)) = set (toolValues (tools ag)) \<union> contributed ag a"
    unfolding t tv contributed_def
    using set_concat_schedule [OF assms, of "\<lambda>f. loadedTools ag (f ag)"] by simp
  moreover have "prefix (toolValues (tools ag)) (toolValues (tools ag1))"
    unfolding t tv by simp
  ultimately show ?thesis using i by blast
qed

lemma initialize_never_rejects:
  "initialize h ag a e \<noteq> Some (Inl err, ag', log)"
  by (auto simp: initialize_def split: option.splits prod.splits sum.splits)

text \<open>
  Claim C8. \<^verbatim>\<open>initialize\<close> is called with \<^verbatim>\<open>checkPointer = "mongo"\<close> and the connection
  fails. The block inside the outer \<^verbatim>\<open>try\<close> does throw
  \<^verbatim>\<open>MongoDB connection failed: ...\<close>, but the outer \<^verbatim>\<open>catch\<close> takes it: the call returns
  normally, having logged \<^verbatim>\<open>Agent initialization error:\<close>, and leaves the agent without a
  checkpoint saver. The caller is not told.
\<close>

theorem mongo_failure_swallowed:
  "newAgent callerStore ''t1'' 0 (Some ''model'') = (constructedStore, Inr objectAgent) \<and>
   initializeTry constructedStore objectAgent mongoRun mongoDown
     = (Inl (Error ''MongoDB connection failed: ECONNREFUSED''),
        objectAgent\<lparr>systemPrompt := systemPrompt initializedAgent,
                    mongoClient := Some ''mongodb://db''\<rparr>) \<and>
   initialize constructedStore objectAgent mongoRun mongoDown
     = Some (Inr (),
        objectAgent\<lparr>systemPrompt := systemPrompt initializedAgent,
                    mongoClient := Some ''mongodb://db''\<rparr>,
        [''Agent initialization error:'']) \<and>
   checkPointSaver (objectAgent\<lparr>systemPrompt := systemPrompt initializedAgent,
                                mongoClient := Some ''mongodb://db''\<rparr>) = None"
  by (simp add: initialize_def initializeTry_def exportToolsAndSetMetadata_def
      effectiveFactories_def filteredToolBunches_def objectAgent_def callerStore_def
      constructedStore_def initializedAgent_def newAgent_def mongoRun_def mongoDown_def)

text \<open>
  Two calls of \<^verbatim>\<open>initialize\<close> in a row on one agent, each with all its factories
  settling: neither call throws, and the tools the agent holds after the second call are
  those it held at the start together with the tools of the factories loaded in the first
  run and in the second. Nothing is reset: what the agent held after the first call is
  still there, in front.
\<close>

lemma initialize_twice_where_loaded:
  assumes s1: "completeSchedule
      (length (effectiveFactories (clients a1) (allRegistry a1) (toolNumbers a1))) (settleOrder e1)"
    and s2: "completeSchedule
      (length (effectiveFactories (clients a2) (allRegistry a2) (toolNumbers a2))) (settleOrder e2)"
  shows "\<exists>ag1 log1 ag2 log2.
     initialize h ag a1 e1 = Some (Inr (), ag1, log1) \<and>
     initialize h ag1 a2 e2 = Some (Inr (), ag2, log2) \<and>
     set (toolValues (tools ag2)) =
       set (toolValues (tools ag)) \<union> contributed ag a1 \<union> contributed ag1 a2 \<and>
     prefix (toolValues (tools ag1)) (toolValues (tools ag2))"
proof -
  from initialize_tools [OF s1, of h ag] obtain ag1 log1 where
    i1: "initialize h ag a1 e1 = Some (Inr (), ag1, log1)"
    and t1: "set (toolValues (tools ag1)) = set (toolValues (tools ag)) \<union> contributed ag a1"
    by blast
  from initialize_tools [OF s2, of h ag1] obtain ag2 log2 where
    i2: "initialize h ag1 a2 e2 = Some (Inr (), ag2, log2)"
    and t2: "set (toolValues (tools ag2)) = set (toolValues (tools ag1)) \<union> contributed ag1 a2"
    and p2: "prefix (toolValues (tools ag1)) (toolValues (tools ag2))"
    by blast
  from i1 i2 t1 t2 p2 show ?thesis by blast
qed

lemma initialize_twice_on_array:
  "\<exists>ag1 log1 ag2 log2.
     initialize callerStore arrayAgent firstRun oneSettles = Some (Inr (), ag1, log1) \<and>
     initialize callerStore ag1 secondRun oneSettles = Some (Inr (), ag2, log2) \<and>
     set (toolValues (tools ag1)) = {toolX1} \<and>
     set (toolValues (tools ag2)) = {toolX1, toolX2}"
proof -
  have f1: "effectiveFactories (clients firstRun) (allRegistry firstRun) (toolNumbers firstRun)
      = [factoryX1]"
    by (simp add: firstRun_def effectiveFactories_def filteredToolBunches_def)
  have f2: "effectiveFactories (clients secondRun) (allRegistry secondRun) (toolNumbers secondRun)
      = [factoryX2]"
    by (simp add: secondRun_def effectiveFactories_def filteredToolBunches_def includesNum_def)
  have s1: "completeSchedule
      (length (effectiveFactories (clients firstRun) (allRegistry firstRun) (toolNumbers firstRun)))
      (settleOrder oneSettles)"
    by (simp add: f1 completeSchedule_def oneSettles_def)
  have s2: "completeSchedule
      (length (effectiveFactories (clients secondRun) (allRegistry secondRun) (toolNumbers secondRun)))
      (settleOrder oneSettles)"
    by (simp add: f2 completeSchedule_def oneSettles_def)
  from initialize_twice_where_loaded [OF s1 s2, of callerStore arrayAgent]
  obtain ag1 log1 ag2 log2 where
    i1: "initialize callerStore arrayAgent firstRun oneSettles = Some (Inr (), ag1, log1)"
    and i2: "initialize callerStore ag1 secondRun oneSettles = Some (Inr (), ag2, log2)"
    and u: "set (toolValues (tools ag2)) =
       set (toolValues (tools arrayAgent)) \<union> contributed arrayAgent firstRun
         \<union> contributed ag1 secondRun"
    by blast
  have t1: "tools ag1 = ToolArray [toolX1]"
    using i1
    by (auto simp: initialize_def initializeTry_def exportToolsAndSetMetadata_def
        effectiveFactories_def filteredToolBunches_def Let_def
        toolCallback_def factoryX1_def itemX1_def arrayAgent_def callerStore_def
        firstRun_def oneSettles_def)
  have c1: "contributed arrayAgent firstRun = {toolX1}"
    by (simp add: contributed_def f1 loadedTools_def loaded_eq factoryX1_def itemX1_def
        arrayAgent_def)
  have c2: "contributed ag1 secondRun = {toolX2}"
    by (simp add: contributed_def f2 loadedTools_def loaded_eq factoryX2_def itemX2_def t1)
  have t0: "toolValues (tools arrayAgent) = []" by (simp add: arrayAgent_def)
  have u': "set (toolValues (tools ag2)) = {toolX1, toolX2}"
    using u by (auto simp: c1 c2 t0)
  from i1 i2 t1 u' show ?thesis by auto
qed

text \<open>
  Claim C9. A freshly constructed agent of the class with a name-keyed tool object is
  initialised twice, first with a factory that resolves to one tool, then with a factory
  that resolves to another. Neither call throws. But neither run registers its tool:
  \<^verbatim>\<open>push\<close> raises inside each callback, and after the second call the tool object is
  still empty, not the union of the two runs.
\<close>

theorem initialize_twice_registers_nothing:
  "newAgent callerStore ''t1'' 0 (Some ''model'') = (constructedStore, Inr objectAgent) \<and>
   factoryX1 objectAgent = Inr itemX1 \<and> factoryX2 initializedAgent = Inr itemX2 \<and>
   initialize constructedStore objectAgent firstRun oneSettles
     = Some (Inr (), initializedAgent, [''Agent initialized successfully'']) \<and>
   initialize constructedStore initializedAgent secondRun oneSettles
     = Some (Inr (), initializedAgent, [''Agent initialized successfully'']) \<and>
   tools initializedAgent = ToolObject [] \<and>
   toolValues (tools initializedAgent) = []"
  by (simp add: initialize_def initializeTry_def exportToolsAndSetMetadata_def
      effectiveFactories_def filteredToolBunches_def includesNum_def toolCallback_def
      factoryX1_def factoryX2_def objectAgent_def initializedAgent_def newAgent_def
      callerStore_def constructedStore_def firstRun_def secondRun_def oneSettles_def)

subsection \<open>Constructor\<close>




end
